theory Spec2Isabelle
  imports Main
begin

section \<open>Values, errors and documents\<close>

text \<open>
  The queue of \<^verbatim>\<open>src/index.js\<close> keeps its events in one MongoDB collection. The model
  has three layers: JavaScript values (event payloads are plain data), the document store
  with the three driver calls the class uses (\<^verbatim>\<open>insert\<close>, \<^verbatim>\<open>find/sort/limit\<close>,
  \<^verbatim>\<open>deleteOne\<close>), and the class \<^verbatim>\<open>GrattisEvent\<close> itself, method by method.
  Every \<^verbatim>\<open>throw\<close> or rejected promise is a value \<open>Inl err\<close>.
\<close>

text \<open>An ObjectId is twelve bytes; the model keeps the number those bytes denote.\<close>

type_synonym objectid = nat

datatype jsval =
    JString string
  | JNumber int
  | JBoolean bool
  | JNull
  | JUndefined
  | JObjectId objectid
  | JObject "(string \<times> jsval) list"
  | JArray "jsval list"

datatype jserror =
    TypeError
  | BSONError
  | ConnectionError
  | WriteError
  | QueryError
  | HandlerError string

text \<open>What an async function resolves to: \<^verbatim>\<open>return null\<close> or falling off the end.\<close>

datatype jsret = RNull | RUndefined

fun typeof :: "jsval \<Rightarrow> string" where
  "typeof (JString s) = ''string''"
| "typeof (JNumber n) = ''number''"
| "typeof (JBoolean b) = ''boolean''"
| "typeof JNull = ''object''"
| "typeof JUndefined = ''undefined''"
| "typeof (JObjectId i) = ''object''"
| "typeof (JObject kvs) = ''object''"
| "typeof (JArray vs) = ''object''"

text \<open>The regular expression \<^verbatim>\<open>/^[0-9a-fA-F]{24}$/\<close> (no flags: \<^verbatim>\<open>$\<close> is the end of input).\<close>

definition hex_chars :: string where
  "hex_chars = ''0123456789abcdefABCDEF''"

definition matches_hex24 :: "string \<Rightarrow> bool" where
  "matches_hex24 s \<longleftrightarrow> length s = 24 \<and> list_all (\<lambda>c. List.member hex_chars c) s"

text \<open>
  \<^verbatim>\<open>function isObjectId (str) { return str.match(/^[0-9a-fA-F]{24}$/) }\<close>

  Only strings have a \<^verbatim>\<open>match\<close> method. On a number, a boolean, a plain data object, an
  array or an ObjectId the property is \<^verbatim>\<open>undefined\<close> and the call throws a TypeError, as
  does the property access on \<^verbatim>\<open>null\<close> and \<^verbatim>\<open>undefined\<close>. The result (a match array or
  \<^verbatim>\<open>null\<close>) is only ever tested for truth.
\<close>

fun isObjectId :: "jsval \<Rightarrow> jserror + bool" where
  "isObjectId (JString s) = Inr (matches_hex24 s)"
| "isObjectId v = Inl TypeError"

text \<open>
  The document literal that \<^verbatim>\<open>send\<close> hands to the driver, and the stored event: the same
  fields plus the \<^verbatim>\<open>_id\<close> assigned on insert.
\<close>

record document =
  doc_value :: "(string \<times> jsval) list"
  date :: int
  isWork :: bool
  isDone :: bool

record event = document +
  doc_id :: objectid

section \<open>The document store\<close>

text \<open>
  The collection as the class sees it through the driver: the stored events in insertion
  order, the next identifier the store will hand out, and whether the store can be reached
  (a call on an unreachable store rejects).
\<close>

record mongo =
  available :: bool
  docs :: "event list"
  next_id :: objectid

text \<open>Calls that leave the process, in the order they are made.\<close>

datatype call =
    ConnectCall string
  | InsertCall document
  | FindCall int nat
  | HandlerCall "event list"
  | DeleteOneCall objectid

section \<open>The class GrattisEvent\<close>

record GrattisEvent =
  mongoURL :: string
  dbName :: string
  eventCollectionName :: string
  mongoClient :: "string option"
  db :: "string option"
  collection :: "string option"
  isRun :: bool

text \<open>
  The instance together with what its methods act on: the store, the console, the calls
  made so far and the intervals registered with \<^verbatim>\<open>setInterval\<close> (period and batch limit).
\<close>

record world =
  this :: GrattisEvent
  server :: mongo
  console :: "jserror list"
  calls :: "call list"
  timers :: "(nat \<times> nat) list"

text \<open>
  The batch handler \<^verbatim>\<open>cb\<close> is the consumer's code: given the batch it may change the
  stored events (it is expected to delete what it has processed) and either resolves or
  rejects.
\<close>

type_synonym handler = "event list \<Rightarrow> mongo \<Rightarrow> jserror option \<times> mongo"

text \<open>
  The driver's \<^verbatim>\<open>new ObjectId(x)\<close> is not part of the repository. Every method that calls
  it takes it as the parameter \<open>newObjectId\<close>.
\<close>

type_synonym objectid_ctor = "jsval \<Rightarrow> jserror + objectid"

definition new_GrattisEvent :: "string \<Rightarrow> string option \<Rightarrow> string option \<Rightarrow> GrattisEvent" where
  "new_GrattisEvent url coll_name db_name =
     \<lparr> mongoURL = url,
       dbName = (case db_name of None \<Rightarrow> ''grattis'' | Some n \<Rightarrow> n),
       eventCollectionName = (case coll_name of None \<Rightarrow> ''Event'' | Some n \<Rightarrow> n),
       mongoClient = None, db = None, collection = None, isRun = False \<rparr>"

definition set_isRun :: "bool \<Rightarrow> world \<Rightarrow> world" where
  "set_isRun b w = w\<lparr>this := (this w)\<lparr>isRun := b\<rparr>\<rparr>"

definition record_call :: "call \<Rightarrow> world \<Rightarrow> world" where
  "record_call c w = w\<lparr>calls := calls w @ [c]\<rparr>"

text \<open>
  \<^verbatim>\<open>async connect()\<close>: the client is created and stored first; if connecting rejects, the
  database and collection handles stay as they were.
\<close>

definition connect :: "world \<Rightarrow> (jserror + unit) \<times> world" where
  "connect w =
     (let t = this w;
          w1 = record_call (ConnectCall (mongoURL t))
                 (w\<lparr>this := t\<lparr>mongoClient := Some (mongoURL t)\<rparr>\<rparr>)
      in if available (server w1)
         then (Inr (),
               w1\<lparr>this := (this w1)\<lparr>db := Some (dbName t),
                                      collection := Some (eventCollectionName t)\<rparr>\<rparr>)
         else (Inl ConnectionError, w1))"

text \<open>\<^verbatim>\<open>if (!this.collection) { await this.connect() }\<close>\<close>

definition ensure_connected :: "world \<Rightarrow> (jserror + unit) \<times> world" where
  "ensure_connected w =
     (case collection (this w) of None \<Rightarrow> connect w | Some c \<Rightarrow> (Inr (), w))"

subsection \<open>Driver calls on \<^verbatim>\<open>this.collection\<close>\<close>

text \<open>
  A method call on \<^verbatim>\<open>this.collection\<close> while it is still \<^verbatim>\<open>null\<close> throws a TypeError
  before any argument is evaluated and before anything is sent.
\<close>

definition collection_insert :: "document \<Rightarrow> world \<Rightarrow> (jserror + unit) \<times> world" where
  "collection_insert d w =
     (case collection (this w) of
        None \<Rightarrow> (Inl TypeError, w)
      | Some c \<Rightarrow>
          (let w1 = record_call (InsertCall d) w; m = server w1;
               e = \<lparr> doc_value = doc_value d, date = date d, isWork = isWork d,
                     isDone = isDone d, doc_id = next_id m \<rparr>
           in if available m
              then (Inr (), w1\<lparr>server := m\<lparr>docs := docs m @ [e], next_id := Suc (next_id m)\<rparr>\<rparr>)
              else (Inl WriteError, w1)))"

text \<open>
  The filter \<^verbatim>\<open>{ date: { $lt: now }, isWork: false, isDone: false }\<close>.
\<close>

definition query_matches :: "int \<Rightarrow> event \<Rightarrow> bool" where
  "query_matches now e \<longleftrightarrow> date e < now \<and> isWork e = False \<and> isDone e = False"

text \<open>\<^verbatim>\<open>.limit(n)\<close>: in MongoDB a limit of 0 means no limit.\<close>

definition cursor_limit :: "nat \<Rightarrow> 'a list \<Rightarrow> 'a list" where
  "cursor_limit n xs = (if n = 0 then xs else take n xs)"

text \<open>\<^verbatim>\<open>find(filter).sort({ date: 1 }).limit(limit).toArray()\<close> on the stored events.\<close>

definition due_batch :: "int \<Rightarrow> nat \<Rightarrow> event list \<Rightarrow> event list" where
  "due_batch now limit es = cursor_limit limit (sort_key date (filter (query_matches now) es))"

definition collection_find :: "int \<Rightarrow> nat \<Rightarrow> world \<Rightarrow> (jserror + event list) \<times> world" where
  "collection_find now limit w =
     (case collection (this w) of
        None \<Rightarrow> (Inl TypeError, w)
      | Some c \<Rightarrow>
          (let w1 = record_call (FindCall now limit) w
           in if available (server w1)
              then (Inr (due_batch now limit (docs (server w1))), w1)
              else (Inl QueryError, w1)))"

fun delete_first :: "objectid \<Rightarrow> event list \<Rightarrow> event list" where
  "delete_first i [] = []"
| "delete_first i (e # es) = (if doc_id e = i then es else e # delete_first i es)"

definition collection_deleteOne :: "objectid \<Rightarrow> world \<Rightarrow> (jserror + unit) \<times> world" where
  "collection_deleteOne i w =
     (let w1 = record_call (DeleteOneCall i) w; m = server w1
      in if available m
         then (Inr (), w1\<lparr>server := m\<lparr>docs := delete_first i (docs m)\<rparr>\<rparr>)
         else (Inl WriteError, w1))"

subsection \<open>send\<close>

text \<open>
  The body of the \<^verbatim>\<open>forEach\<close> callback for one key:
  \<^verbatim>\<open>
  const val = value[key]
  if (typeof val === 'string') { return }
  if (isObjectId(val)) { value[key] = new ObjectId(val) }
  \<close>
  The result is the value the key holds afterwards, or the error thrown.
\<close>

definition normalize_value :: "objectid_ctor \<Rightarrow> jsval \<Rightarrow> jserror + jsval" where
  "normalize_value newObjectId val =
     (if typeof val = ''string'' then Inr val
      else (case isObjectId val of
              Inl err \<Rightarrow> Inl err
            | Inr False \<Rightarrow> Inr val
            | Inr True \<Rightarrow>
                (case newObjectId val of
                   Inl err \<Rightarrow> Inl err
                 | Inr i \<Rightarrow> Inr (JObjectId i))))"

text \<open>
  \<^verbatim>\<open>Object.keys(value).forEach(...)\<close>: keys in order; the first throw ends the loop and leaves
  \<^verbatim>\<open>send\<close>.
\<close>

fun normalize_keys :: "objectid_ctor \<Rightarrow> (string \<times> jsval) list \<Rightarrow> jserror + (string \<times> jsval) list" where
  "normalize_keys newObjectId [] = Inr []"
| "normalize_keys newObjectId ((key, val) # rest) =
     (case normalize_value newObjectId val of
        Inl err \<Rightarrow> Inl err
      | Inr val' \<Rightarrow>
          (case normalize_keys newObjectId rest of
             Inl err \<Rightarrow> Inl err
           | Inr rest' \<Rightarrow> Inr ((key, val') # rest')))"

text \<open>
  \<^verbatim>\<open>async send (value, date = Date.now())\<close>. The argument \<open>now\<close> is the clock reading at the
  call; \<open>date_arg = None\<close> is the omitted argument.
\<close>

definition send :: "objectid_ctor \<Rightarrow> (string \<times> jsval) list \<Rightarrow> int option \<Rightarrow> int \<Rightarrow> world
    \<Rightarrow> (jserror + unit) \<times> world" where
  "send newObjectId val date_arg now w =
     (let d = (case date_arg of None \<Rightarrow> now | Some t \<Rightarrow> t)
      in case ensure_connected w of
           (Inl err, w1) \<Rightarrow> (Inl err, w1)
         | (Inr u, w1) \<Rightarrow>
             (case normalize_keys newObjectId val of
                Inl err \<Rightarrow> (Inl err, w1)
              | Inr val' \<Rightarrow>
                  collection_insert
                    \<lparr> doc_value = val', date = d, isWork = False, isDone = False \<rparr> w1))"

subsection \<open>getItems\<close>

text \<open>
  The \<^verbatim>\<open>try\<close> block of the interval callback. \<open>Inl err\<close> is control passing to \<^verbatim>\<open>catch\<close>.
\<close>

definition tick_try :: "handler \<Rightarrow> nat \<Rightarrow> int \<Rightarrow> world \<Rightarrow> (jserror + jsret) \<times> world" where
  "tick_try cb limit now w =
     (if isRun (this w) then (Inr RNull, w)
      else
        (case collection_find now limit (set_isRun True w) of
           (Inl err, w2) \<Rightarrow> (Inl err, w2)
         | (Inr events, w2) \<Rightarrow>
             if events = [] then (Inr RNull, w2)
             else
               (case cb events (server w2) of
                  (Some err, m) \<Rightarrow> (Inl err, (record_call (HandlerCall events) w2)\<lparr>server := m\<rparr>)
                | (None, m) \<Rightarrow>
                    (Inr RUndefined,
                     set_isRun False ((record_call (HandlerCall events) w2)\<lparr>server := m\<rparr>)))))"

text \<open>
  The whole callback: \<^verbatim>\<open>catch (err) { console.log(err); this.isRun = false }\<close> around the
  block above.
\<close>

definition tick :: "handler \<Rightarrow> nat \<Rightarrow> int \<Rightarrow> world \<Rightarrow> (jserror + jsret) \<times> world" where
  "tick cb limit now w =
     (case tick_try cb limit now w of
        (Inl err, w') \<Rightarrow> (Inr RUndefined, set_isRun False (w'\<lparr>console := console w' @ [err]\<rparr>))
      | (Inr r, w') \<Rightarrow> (Inr r, w'))"

text \<open>
  \<^verbatim>\<open>async getItems (cb, timeout = 1000 * 60, limit = 10000)\<close>: connect if needed, then
  register the interval. The registered callback is \<open>tick cb limit\<close>; each firing of the
  timer applies it to the world of that moment.
\<close>

definition getItems :: "nat option \<Rightarrow> nat option \<Rightarrow> world \<Rightarrow> (jserror + unit) \<times> world" where
  "getItems timeout_arg limit_arg w =
     (let timeout = (case timeout_arg of None \<Rightarrow> 1000 * 60 | Some t \<Rightarrow> t);
          limit = (case limit_arg of None \<Rightarrow> 10000 | Some l \<Rightarrow> l)
      in case ensure_connected w of
           (Inl err, w1) \<Rightarrow> (Inl err, w1)
         | (Inr u, w1) \<Rightarrow> (Inr (), w1\<lparr>timers := timers w1 @ [(timeout, limit)]\<rparr>))"

text \<open>Ticks fired one after the other, each with its own clock reading.\<close>

fun run_ticks :: "handler \<Rightarrow> nat \<Rightarrow> int list \<Rightarrow> world \<Rightarrow> world" where
  "run_ticks cb limit [] w = w"
| "run_ticks cb limit (now # nows) w = run_ticks cb limit nows (snd (tick cb limit now w))"

subsection \<open>removeEvent\<close>

text \<open>
  \<^verbatim>\<open>await this.collection.deleteOne({ _id: new ObjectId(eventId) })\<close>: the method is looked
  up on \<^verbatim>\<open>this.collection\<close> first, then the argument is built, then the call is made.
\<close>

definition removeEvent :: "objectid_ctor \<Rightarrow> jsval \<Rightarrow> world \<Rightarrow> (jserror + unit) \<times> world" where
  "removeEvent newObjectId eventId w =
     (case collection (this w) of
        None \<Rightarrow> (Inl TypeError, w)
      | Some c \<Rightarrow>
          (case newObjectId eventId of
             Inl err \<Rightarrow> (Inl err, w)
           | Inr i \<Rightarrow> collection_deleteOne i w))"


section \<open>Concrete instances\<close>

text \<open>
  The ObjectId constructor of the mongodb driver, for the concrete runs below. It is the
  constructor of the 4.x drivers, the last ones with the \<^verbatim>\<open>Collection.insert\<close> that \<^verbatim>\<open>send\<close>
  calls:
  \<^item> \<^verbatim>\<open>null\<close>, \<^verbatim>\<open>undefined\<close> or a number: a fresh identifier is generated; the argument \<open>g\<close>
    stands for the identifier the generator returns at that call;
  \<^item> an ObjectId: a copy of it;
  \<^item> a string of 12 characters: its 12 bytes, which it has when the characters are ASCII
    (otherwise its encoding is longer and the constructor throws);
  \<^item> a string of 24 hexadecimal digits: the 12 bytes they spell, upper and lower case
    alike;
  \<^item> any other string: an error;
  \<^item> a plain object with a property \<^verbatim>\<open>id\<close>: as for that property when it is a string, an
    error otherwise; any other value: an error.
  The general theorems do not refer to it: they hold for every constructor. The concrete
  runs pass it strings only, so the generator is never reached; they write 1000 for \<open>g\<close>.
\<close>

definition hex_digit :: "char \<Rightarrow> nat" where
  "hex_digit c =
     (case map_of
        [(CHR ''0'', 0), (CHR ''1'', 1), (CHR ''2'', 2), (CHR ''3'', 3), (CHR ''4'', 4),
         (CHR ''5'', 5), (CHR ''6'', 6), (CHR ''7'', 7), (CHR ''8'', 8), (CHR ''9'', 9),
         (CHR ''a'', 10), (CHR ''b'', 11), (CHR ''c'', 12), (CHR ''d'', 13), (CHR ''e'', 14),
         (CHR ''f'', 15), (CHR ''A'', 10), (CHR ''B'', 11), (CHR ''C'', 12), (CHR ''D'', 13),
         (CHR ''E'', 14), (CHR ''F'', 15)] c of
        Some d \<Rightarrow> d | None \<Rightarrow> 0)"

fun hex_value :: "nat \<Rightarrow> string \<Rightarrow> nat" where
  "hex_value acc [] = acc"
| "hex_value acc (c # cs) = hex_value (16 * acc + hex_digit c) cs"

fun bytes_value :: "nat \<Rightarrow> string \<Rightarrow> nat" where
  "bytes_value acc [] = acc"
| "bytes_value acc (c # cs) = bytes_value (256 * acc + of_char c) cs"

definition is_ascii :: "char \<Rightarrow> bool" where
  "is_ascii c \<longleftrightarrow> of_char c < (128::nat)"

definition objectid_of_string :: "string \<Rightarrow> jserror + objectid" where
  "objectid_of_string s =
     (if length s = 12
      then (if list_all is_ascii s then Inr (bytes_value 0 s) else Inl BSONError)
      else if matches_hex24 s then Inr (hex_value 0 s)
      else Inl BSONError)"

fun driver_ObjectId :: "objectid \<Rightarrow> objectid_ctor" where
  "driver_ObjectId g JNull = Inr g"
| "driver_ObjectId g JUndefined = Inr g"
| "driver_ObjectId g (JNumber n) = Inr g"
| "driver_ObjectId g (JObjectId i) = Inr i"
| "driver_ObjectId g (JString s) = objectid_of_string s"
| "driver_ObjectId g (JObject kvs) =
     (case map_of kvs ''id'' of
        Some (JString s) \<Rightarrow> objectid_of_string s
      | _ \<Rightarrow> Inl BSONError)"
| "driver_ObjectId g (JBoolean b) = Inl BSONError"
| "driver_ObjectId g (JArray vs) = Inl BSONError"

text \<open>A new instance with the default names, an empty reachable store, nothing done yet.\<close>

definition initial_world :: "string \<Rightarrow> world" where
  "initial_world url =
     \<lparr> this = new_GrattisEvent url None None,
       server = \<lparr> available = True, docs = [], next_id = 0 \<rparr>,
       console = [], calls = [], timers = [] \<rparr>"

text \<open>The same instance after \<^verbatim>\<open>getItems(cb)\<close> with the default period and limit.\<close>

definition connected_world :: world where
  "connected_world = snd (getItems None None (initial_world ''mongodb://localhost''))"

definition noop_handler :: handler where
  "noop_handler batch m = (None, m)"

definition failing_handler :: handler where
  "failing_handler batch m = (Some (HandlerError ''boom''), m)"

definition stored :: "objectid \<Rightarrow> int \<Rightarrow> event" where
  "stored i d = \<lparr> doc_value = [], date = d, isWork = False, isDone = False, doc_id = i \<rparr>"

text \<open>Four stored events, scheduled at 30, 10, 20 and 90.\<close>

definition four_events_world :: world where
  "four_events_world =
     connected_world\<lparr>server :=
       \<lparr> available = True, docs = [stored 0 30, stored 1 10, stored 2 20, stored 3 90],
         next_id = 4 \<rparr>\<rparr>"

text \<open>The same store, unreachable.\<close>

definition unreachable_world :: world where
  "unreachable_world =
     four_events_world\<lparr>server := (server four_events_world)\<lparr>available := False\<rparr>\<rparr>"

text \<open>One stored event scheduled exactly at 1000.\<close>

definition boundary_world :: world where
  "boundary_world =
     connected_world\<lparr>server := \<lparr> available = True, docs = [stored 0 1000], next_id = 1 \<rparr>\<rparr>"

text \<open>A new instance whose store cannot be reached.\<close>

definition offline_world :: world where
  "offline_world =
     (initial_world ''mongodb://localhost'')\<lparr>server :=
        \<lparr> available = False, docs = [], next_id = 0 \<rparr>\<rparr>"

text \<open>
  The spec's definition of a due record, in its words: \<^verbatim>\<open>scheduledAt\<close> \<open>\<le>\<close> current time and
  \<^verbatim>\<open>isWork\<close> = false and \<^verbatim>\<open>isDone\<close> = false.
\<close>

definition due_spec :: "int \<Rightarrow> event \<Rightarrow> bool" where
  "due_spec now e \<longleftrightarrow> date e \<le> now \<and> isWork e = False \<and> isDone e = False"

section \<open>Basic facts\<close>

lemma connected_world_eq:
  "connected_world =
     \<lparr> this = \<lparr> mongoURL = ''mongodb://localhost'', dbName = ''grattis'',
                eventCollectionName = ''Event'', mongoClient = Some ''mongodb://localhost'',
                db = Some ''grattis'', collection = Some ''Event'', isRun = False \<rparr>,
       server = \<lparr> available = True, docs = [], next_id = 0 \<rparr>,
       console = [], calls = [ConnectCall ''mongodb://localhost''],
       timers = [(60000, 10000)] \<rparr>"
  by (simp add: connected_world_def getItems_def initial_world_def new_GrattisEvent_def
      ensure_connected_def connect_def record_call_def Let_def)

lemmas eval_find = collection_find_def record_call_def due_batch_def cursor_limit_def
  query_matches_def set_isRun_def stored_def

lemma four_events_find:
  "collection_find 50 2 four_events_world =
     (Inr [stored 1 10, stored 2 20], record_call (FindCall 50 2) four_events_world)"
  by (simp add: four_events_world_def connected_world_eq eval_find)

subsection \<open>The cursor\<close>

lemma set_cursor_limit: "set (cursor_limit n xs) \<subseteq> set xs"
  by (auto simp: cursor_limit_def dest: in_set_takeD)

lemma length_cursor_limit: "0 < n \<Longrightarrow> length (cursor_limit n xs) \<le> n"
  by (simp add: cursor_limit_def)

lemma sorted_cursor_limit: "sorted (map f xs) \<Longrightarrow> sorted (map f (cursor_limit n xs))"
  by (simp add: cursor_limit_def take_map [symmetric])

text \<open>An element of a sorted list that the limit leaves out lies at or after the cut.\<close>

lemma cursor_limit_cutoff:
  assumes "sorted (map f xs)" and "x \<in> set xs" and "x \<notin> set (cursor_limit n xs)"
  shows "0 < n \<and> length (cursor_limit n xs) = n \<and> (\<forall>y\<in>set (cursor_limit n xs). f y \<le> f x)"
proof -
  from assms(2,3) have n: "0 < n" and out: "x \<notin> set (take n xs)"
    by (auto simp: cursor_limit_def split: if_splits)
  from assms(2) out have tail: "x \<in> set (drop n xs)"
    by (metis Un_iff append_take_drop_id set_append)
  then have len: "n < length xs" by (cases "n < length xs") auto
  have "sorted (map f (take n xs) @ map f (drop n xs))"
    using assms(1) by (metis append_take_drop_id map_append)
  then have "\<forall>a\<in>set (take n xs). \<forall>b\<in>set (drop n xs). f a \<le> f b"
    by (auto simp: sorted_append)
  with tail n len show ?thesis
    by (auto simp: cursor_limit_def)
qed

lemma due_batch_sorted: "sorted (map date (due_batch now limit es))"
  by (simp add: due_batch_def sorted_cursor_limit)

lemma due_batch_sound:
  "e \<in> set (due_batch now limit es) \<Longrightarrow> e \<in> set es \<and> query_matches now e"
  using set_cursor_limit [of limit "sort_key date (filter (query_matches now) es)"]
  by (auto simp: due_batch_def)

lemma due_batch_cutoff:
  assumes "e \<in> set es" and "query_matches now e" and "e \<notin> set (due_batch now limit es)"
  shows "0 < limit \<and> length (due_batch now limit es) = limit \<and>
         (\<forall>b\<in>set (due_batch now limit es). date b \<le> date e)"
  unfolding due_batch_def
  by (rule cursor_limit_cutoff) (use assms in \<open>simp_all add: due_batch_def\<close>)

lemma collection_find_result:
  "collection_find now limit w = (Inr batch, w') \<Longrightarrow>
     batch = due_batch now limit (docs (server w)) \<and> w' = record_call (FindCall now limit) w"
  by (auto simp: collection_find_def record_call_def Let_def split: option.splits if_splits)

lemma collection_find_console:
  "collection_find now limit w = (r, w') \<Longrightarrow> console w' = console w"
  by (auto simp: collection_find_def record_call_def Let_def split: option.splits if_splits)

lemma collection_find_this:
  "collection_find now limit w = (r, w') \<Longrightarrow> this w' = this w"
  by (auto simp: collection_find_def record_call_def Let_def split: option.splits if_splits)

subsection \<open>The interval callback\<close>

lemma tick_skips: "isRun (this w) \<Longrightarrow> tick cb limit now w = (Inr RNull, w)"
  by (simp add: tick_def tick_try_def)

lemma tick_never_rejects: "fst (tick cb limit now w) \<noteq> Inl err"
  by (simp add: tick_def split: prod.splits sum.splits)

text \<open>
  From the moment a cycle sends its query, \<^verbatim>\<open>isRun\<close> is set: the world in which the query
  and then the handler are awaited is the one the query call leaves behind.
\<close>

lemma cycle_awaits_with_guard_set:
  "collection_find now limit (set_isRun True w) = (r, w2) \<Longrightarrow> isRun (this w2)"
  using collection_find_this [of now limit "set_isRun True w" r w2]
  by (simp add: set_isRun_def)

text \<open>A tick that finds the guard clear and a collection handle sends the query first.\<close>

lemma tick_queries_when_idle:
  assumes "\<not> isRun (this w)" and "collection (this w) \<noteq> None"
  shows "take (Suc (length (calls w))) (calls (snd (tick cb limit now w))) =
           calls w @ [FindCall now limit]"
  using assms
  by (auto simp: tick_def tick_try_def collection_find_def record_call_def set_isRun_def Let_def
      split: option.splits prod.splits sum.splits)

text \<open>
  The early return on an empty result leaves \<^verbatim>\<open>this.isRun\<close> as the cycle set it.
\<close>

lemma tick_empty_result:
  assumes "\<not> isRun (this w)"
    and "collection_find now limit (set_isRun True w) = (Inr [], w2)"
  shows "tick cb limit now w = (Inr RNull, w2) \<and> isRun (this w2)"
proof -
  from assms(2) have "this w2 = this (set_isRun True w)"
    by (rule collection_find_this)
  then have "isRun (this w2)" by (simp add: set_isRun_def)
  with assms show ?thesis by (simp add: tick_def tick_try_def)
qed

subsection \<open>Payload normalisation\<close>

lemma normalize_value_string:
  "normalize_value newObjectId (JString s) = Inr (JString s)"
  by (simp add: normalize_value_def)

lemma normalize_value_other:
  "\<forall>s. v \<noteq> JString s \<Longrightarrow> normalize_value newObjectId v = Inl TypeError"
  by (cases v) (auto simp: normalize_value_def)

text \<open>A payload of strings comes back as it is; any other payload ends in a TypeError.\<close>

lemma normalize_keys_strings:
  "list_all (\<lambda>kv. \<exists>s. snd kv = JString s) kvs \<Longrightarrow> normalize_keys newObjectId kvs = Inr kvs"
proof (induction kvs)
  case Nil
  show ?case by simp
next
  case (Cons kv kvs)
  obtain k v where kv: "kv = (k, v)" by (cases kv)
  from Cons.prems obtain s where v: "v = JString s" by (auto simp: kv)
  from Cons have "normalize_keys newObjectId kvs = Inr kvs" by simp
  then show ?case by (simp add: kv v normalize_value_string)
qed

lemma normalize_keys_non_string:
  "\<not> list_all (\<lambda>kv. \<exists>s. snd kv = JString s) kvs \<Longrightarrow>
     normalize_keys newObjectId kvs = Inl TypeError"
proof (induction kvs)
  case Nil
  then show ?case by simp
next
  case (Cons kv kvs)
  obtain k v where kv: "kv = (k, v)" by (cases kv)
  show ?case
  proof (cases "\<exists>s. v = JString s")
    case True
    then obtain s where v: "v = JString s" ..
    with Cons.prems have "\<not> list_all (\<lambda>kv. \<exists>s. snd kv = JString s) kvs" by (simp add: kv)
    then have "normalize_keys newObjectId kvs = Inl TypeError" by (rule Cons.IH)
    then show ?thesis by (simp add: kv v normalize_value_string)
  next
    case False
    then have "normalize_value newObjectId v = Inl TypeError"
      by (intro normalize_value_other) simp
    then show ?thesis by (simp add: kv)
  qed
qed

subsection \<open>Connecting, inserting, deleting\<close>

lemma ensure_connected_server:
  "ensure_connected w = (r, w1) \<Longrightarrow> server w1 = server w"
  by (auto simp: ensure_connected_def connect_def record_call_def Let_def
      split: option.splits if_splits)

lemma collection_insert_Inr:
  "collection_insert d w = (Inr u, w') \<Longrightarrow>
     docs (server w') = docs (server w) @
       [\<lparr> doc_value = doc_value d, date = date d, isWork = isWork d, isDone = isDone d,
          doc_id = next_id (server w) \<rparr>]"
  by (auto simp: collection_insert_def record_call_def Let_def split: option.splits if_splits)

lemma delete_first_absent: "i \<notin> doc_id ` set es \<Longrightarrow> delete_first i es = es"
  by (induction es) auto

lemma delete_first_subset: "set (delete_first i es) \<subseteq> set es"
  by (induction es) auto

lemma delete_first_removes:
  "distinct (map doc_id es) \<Longrightarrow> i \<notin> doc_id ` set (delete_first i es)"
proof (induction es)
  case Nil
  show ?case by simp
next
  case (Cons e es)
  then show ?case
    using delete_first_subset [of i es] by auto
qed

lemma removeEvent_connected:
  "collection (this w) \<noteq> None \<Longrightarrow> available (server w) \<Longrightarrow> newObjectId eventId = Inr i \<Longrightarrow>
     removeEvent newObjectId eventId w =
       (Inr (), (record_call (DeleteOneCall i) w)
                  \<lparr>server := (server w)\<lparr>docs := delete_first i (docs (server w))\<rparr>\<rparr>)"
  by (auto simp: removeEvent_def collection_deleteOne_def record_call_def Let_def
      split: option.splits)


section \<open>The poll cycle\<close>

text \<open>
  C1. A poll cycle whose query returns an empty result should clear the in-flight guard
  before it ends. The callback returns early instead: on a connected instance with an empty
  collection the tick at time 5 sends its query, does not call the handler, returns
  \<^verbatim>\<open>null\<close> and leaves \<^verbatim>\<open>isRun\<close> set, and the tick after it is skipped without a query.
\<close>

theorem tick_empty_batch_leaves_guard_set:
  "isRun (this connected_world) = False \<and>
   fst (tick noop_handler 10000 5 connected_world) = Inr RNull \<and>
   calls (snd (tick noop_handler 10000 5 connected_world)) =
     calls connected_world @ [FindCall 5 10000] \<and>
   isRun (this (snd (tick noop_handler 10000 5 connected_world))) = True \<and>
   tick noop_handler 10000 6 (snd (tick noop_handler 10000 5 connected_world)) =
     (Inr RNull, snd (tick noop_handler 10000 5 connected_world))"
  by (simp add: connected_world_eq tick_def tick_try_def eval_find)

text \<open>
  C4. While a cycle is marked in flight (from its query until its handler settles,
  \<open>cycle_awaits_with_guard_set\<close>), a tick does nothing: it returns \<^verbatim>\<open>null\<close> and leaves the
  instance, the store, the console and the list of calls as they were, so no query is sent
  and the handler is not called. The same holds for any number of ticks fired in that
  window.
\<close>

theorem tick_skipped_while_in_flight:
  "isRun (this w) \<Longrightarrow>
     tick cb limit now w = (Inr RNull, w) \<and> run_ticks cb limit nows w = w"
  by (induction nows) (simp_all add: tick_skips)

theorem tick_skipped_while_in_flight_witness:
  "isRun (this (set_isRun True four_events_world)) \<and>
   tick noop_handler 2 50 (set_isRun True four_events_world) =
     (Inr RNull, set_isRun True four_events_world) \<and>
   run_ticks noop_handler 2 [50, 60, 70] (set_isRun True four_events_world) =
     set_isRun True four_events_world"
proof -
  have h: "isRun (this (set_isRun True four_events_world))"
    by (simp add: set_isRun_def)
  from tick_skipped_while_in_flight [OF h, of noop_handler 2 50 "[50, 60, 70]"] h
  show ?thesis by blast
qed

text \<open>
  C3, as the spec states it, counts a record scheduled exactly at the current time as due.
  With one such record stored and a limit of 10, the query at time 1000 returns nothing.
\<close>

theorem due_batch_query_omits_record_due_now:
  "due_spec 1000 (stored 0 1000) \<and>
   stored 0 1000 \<in> set (docs (server boundary_world)) \<and>
   fst (collection_find 1000 10 boundary_world) = Inr []"
  by (simp add: due_spec_def boundary_world_def connected_world_eq eval_find)

text \<open>
  C3, amended. The query returns only stored records scheduled strictly before the current
  time with both flags false; for a positive limit it returns at most that many; and a stored
  record that satisfies the filter is left out only when the limit is positive, that many
  records were returned, and all of them are scheduled no later than it.
\<close>

theorem due_batch_query_selects_strictly_past:
  assumes "collection_find now limit w = (Inr batch, w')"
  shows "(\<forall>e\<in>set batch. e \<in> set (docs (server w)) \<and>
            date e < now \<and> isWork e = False \<and> isDone e = False) \<and>
         (0 < limit \<longrightarrow> length batch \<le> limit) \<and>
         (\<forall>e\<in>set (docs (server w)).
            date e < now \<and> isWork e = False \<and> isDone e = False \<and> e \<notin> set batch \<longrightarrow>
              0 < limit \<and> length batch = limit \<and> (\<forall>b\<in>set batch. date b \<le> date e))"
proof -
  from assms have b: "batch = due_batch now limit (docs (server w))"
    by (simp add: collection_find_result)
  have 1: "\<forall>e\<in>set batch. e \<in> set (docs (server w)) \<and>
            date e < now \<and> isWork e = False \<and> isDone e = False"
    using due_batch_sound [of _ now limit "docs (server w)"]
    by (auto simp: b query_matches_def)
  have 2: "0 < limit \<longrightarrow> length batch \<le> limit"
    by (simp add: b due_batch_def length_cursor_limit)
  have 3: "\<forall>e\<in>set (docs (server w)).
            date e < now \<and> isWork e = False \<and> isDone e = False \<and> e \<notin> set batch \<longrightarrow>
              0 < limit \<and> length batch = limit \<and> (\<forall>b\<in>set batch. date b \<le> date e)"
    using due_batch_cutoff [of _ "docs (server w)" now limit]
    by (simp add: b query_matches_def)
  from 1 2 3 show ?thesis by blast
qed

text \<open>
  At time 50 with limit 2 the events scheduled at 10 and 20 are returned; the one at 30
  matches the filter and is cut off by the limit, the one at 90 does not match.
\<close>

theorem due_batch_query_selects_strictly_past_witness:
  "collection_find 50 2 four_events_world =
     (Inr [stored 1 10, stored 2 20], record_call (FindCall 50 2) four_events_world) \<and>
   list_all (\<lambda>e. e \<in> set (docs (server four_events_world)) \<and>
      date e < 50 \<and> isWork e = False \<and> isDone e = False) [stored 1 10, stored 2 20] \<and>
   length [stored 1 10, stored 2 20] \<le> (2::nat) \<and>
   stored 0 30 \<in> set (docs (server four_events_world)) \<and>
   date (stored 0 30) < 50 \<and>
   stored 0 30 \<notin> set [stored 1 10, stored 2 20] \<and>
   list_all (\<lambda>b. date b \<le> date (stored 0 30)) [stored 1 10, stored 2 20]"
proof -
  note t = due_batch_query_selects_strictly_past [OF four_events_find]
  have m: "stored 0 30 \<in> set (docs (server four_events_world))"
    by (simp add: four_events_world_def)
  have f: "date (stored 0 30) < 50 \<and> isWork (stored 0 30) = False \<and>
      isDone (stored 0 30) = False \<and> stored 0 30 \<notin> set [stored 1 10, stored 2 20]"
    by (simp add: stored_def)
  from t m f have "\<forall>b\<in>set [stored 1 10, stored 2 20]. date b \<le> date (stored 0 30)"
    by blast
  with t m f four_events_find show ?thesis by (simp add: list_all_iff)
qed

text \<open>
  C5. Whatever is stored (records with distinct \<^verbatim>\<open>date\<close> values in particular), the batch a
  poll cycle hands to the handler is in non-decreasing order of \<^verbatim>\<open>date\<close>.
\<close>

theorem handler_batch_sorted_by_date:
  assumes "calls (snd (tick cb limit now w)) = calls w @ cs"
    and "HandlerCall batch \<in> set cs"
  shows "sorted (map date batch)"
proof -
  from assms have "batch = due_batch now limit (docs (server w))"
    by (auto simp: tick_def tick_try_def collection_find_def record_call_def set_isRun_def Let_def
        split: if_splits option.splits prod.splits sum.splits)
  then show ?thesis by (simp add: due_batch_sorted)
qed

lemma four_events_tick_calls:
  "calls (snd (tick noop_handler 2 50 four_events_world)) =
     calls four_events_world @ [FindCall 50 2, HandlerCall [stored 1 10, stored 2 20]]"
  by (simp add: four_events_world_def connected_world_eq tick_def tick_try_def eval_find
      noop_handler_def)

theorem handler_batch_sorted_by_date_witness:
  "calls (snd (tick noop_handler 2 50 four_events_world)) =
     calls four_events_world @ [FindCall 50 2, HandlerCall [stored 1 10, stored 2 20]] \<and>
   HandlerCall [stored 1 10, stored 2 20] \<in>
     set [FindCall 50 2, HandlerCall [stored 1 10, stored 2 20]] \<and>
   sorted (map date [stored 1 10, stored 2 20])"
proof -
  have h: "HandlerCall [stored 1 10, stored 2 20] \<in>
     set [FindCall 50 2, HandlerCall [stored 1 10, stored 2 20]]"
    by simp
  from handler_batch_sorted_by_date [OF four_events_tick_calls h] four_events_tick_calls h
  show ?thesis by blast
qed

text \<open>
  C6. An error raised in a poll cycle, by the query or by the handler, does not leave the
  callback: the callback resolves, the error is appended to the console, and
  \<^verbatim>\<open>isRun\<close> is false afterwards. With a collection handle in place, the next tick then sends
  its query.
\<close>

theorem poll_cycle_error_caught_and_guard_cleared:
  assumes "\<not> isRun (this w)"
    and "collection_find now limit (set_isRun True w) = (Inl err, w2) \<or>
         (\<exists>events. collection_find now limit (set_isRun True w) = (Inr events, w2) \<and>
            events \<noteq> [] \<and> fst (cb events (server w2)) = Some err)"
  shows "fst (tick cb limit now w) = Inr RUndefined \<and>
         console (snd (tick cb limit now w)) = console w @ [err] \<and>
         isRun (this (snd (tick cb limit now w))) = False \<and>
         (collection (this w) \<noteq> None \<longrightarrow>
            take (Suc (length (calls (snd (tick cb limit now w)))))
                 (calls (snd (tick cb' limit' now' (snd (tick cb limit now w))))) =
              calls (snd (tick cb limit now w)) @ [FindCall now' limit'])"
proof -
  from assms(2) obtain r where f: "collection_find now limit (set_isRun True w) = (r, w2)"
    by auto
  from f have c: "console w2 = console w"
    using collection_find_console [of now limit "set_isRun True w" r w2]
    by (simp add: set_isRun_def)
  from f have th: "this w2 = (this w)\<lparr>isRun := True\<rparr>"
    using collection_find_this [of now limit "set_isRun True w" r w2]
    by (simp add: set_isRun_def)
  from assms(2) have "\<exists>w3. tick cb limit now w =
      (Inr RUndefined, set_isRun False (w3\<lparr>console := console w2 @ [err]\<rparr>)) \<and>
      this w3 = this w2"
  proof
    assume "collection_find now limit (set_isRun True w) = (Inl err, w2)"
    with assms(1) have "tick cb limit now w =
        (Inr RUndefined, set_isRun False (w2\<lparr>console := console w2 @ [err]\<rparr>))"
      by (simp add: tick_def tick_try_def)
    then show ?thesis by blast
  next
    assume "\<exists>events. collection_find now limit (set_isRun True w) = (Inr events, w2) \<and>
            events \<noteq> [] \<and> fst (cb events (server w2)) = Some err"
    then obtain events m where e: "collection_find now limit (set_isRun True w) = (Inr events, w2)"
      "events \<noteq> []" and m: "cb events (server w2) = (Some err, m)"
      by (metis fst_conv surj_pair)
    with assms(1) have "tick cb limit now w =
      (Inr RUndefined,
       set_isRun False
         (((record_call (HandlerCall events) w2)\<lparr>server := m\<rparr>)\<lparr>console := console w2 @ [err]\<rparr>))"
      by (simp add: tick_def tick_try_def record_call_def)
    moreover have "this ((record_call (HandlerCall events) w2)\<lparr>server := m\<rparr>) = this w2"
      by (simp add: record_call_def)
    ultimately show ?thesis by blast
  qed
  then obtain w3 where t: "tick cb limit now w =
      (Inr RUndefined, set_isRun False (w3\<lparr>console := console w2 @ [err]\<rparr>))"
    and t3: "this w3 = this w2"
    by blast
  let ?w' = "snd (tick cb limit now w)"
  have 1: "fst (tick cb limit now w) = Inr RUndefined" by (simp add: t)
  have 2: "console ?w' = console w @ [err]" by (simp add: t c set_isRun_def)
  have 3: "isRun (this ?w') = False" by (simp add: t set_isRun_def)
  have 4: "collection (this ?w') = collection (this w)"
    by (simp add: t t3 th set_isRun_def)
  have 5: "collection (this w) \<noteq> None \<longrightarrow>
      take (Suc (length (calls ?w'))) (calls (snd (tick cb' limit' now' ?w'))) =
        calls ?w' @ [FindCall now' limit']"
    using tick_queries_when_idle [of ?w' cb' limit' now'] 3 4 by simp
  from 1 2 3 5 show ?thesis by blast
qed

lemma unreachable_find:
  "collection_find 50 2 (set_isRun True unreachable_world) =
     (Inl QueryError, record_call (FindCall 50 2) (set_isRun True unreachable_world))"
  by (simp add: unreachable_world_def four_events_world_def connected_world_eq eval_find)

lemma four_events_find_in_flight:
  "collection_find 50 2 (set_isRun True four_events_world) =
     (Inr [stored 1 10, stored 2 20],
      record_call (FindCall 50 2) (set_isRun True four_events_world))"
  by (simp add: four_events_world_def connected_world_eq eval_find)

text \<open>
  Two runs: the store is unreachable when the query is sent; the query succeeds and the
  handler rejects.
\<close>

theorem poll_cycle_error_caught_and_guard_cleared_witness:
  "\<not> isRun (this unreachable_world) \<and>
   fst (collection_find 50 2 (set_isRun True unreachable_world)) = Inl QueryError \<and>
   fst (tick noop_handler 2 50 unreachable_world) = Inr RUndefined \<and>
   console (snd (tick noop_handler 2 50 unreachable_world)) = [QueryError] \<and>
   isRun (this (snd (tick noop_handler 2 50 unreachable_world))) = False \<and>
   \<not> isRun (this four_events_world) \<and>
   fst (collection_find 50 2 (set_isRun True four_events_world)) =
     Inr [stored 1 10, stored 2 20] \<and>
   fst (failing_handler [stored 1 10, stored 2 20] (server four_events_world)) =
     Some (HandlerError ''boom'') \<and>
   fst (tick failing_handler 2 50 four_events_world) = Inr RUndefined \<and>
   console (snd (tick failing_handler 2 50 four_events_world)) = [HandlerError ''boom''] \<and>
   isRun (this (snd (tick failing_handler 2 50 four_events_world))) = False"
proof -
  have i1: "\<not> isRun (this unreachable_world)"
    by (simp add: unreachable_world_def four_events_world_def connected_world_eq)
  have i2: "\<not> isRun (this four_events_world)"
    by (simp add: four_events_world_def connected_world_eq)
  have c1: "console unreachable_world = []"
    by (simp add: unreachable_world_def four_events_world_def connected_world_eq)
  have c2: "console four_events_world = []"
    by (simp add: four_events_world_def connected_world_eq)
  have s: "server (record_call (FindCall 50 2) (set_isRun True four_events_world)) =
      server four_events_world"
    by (simp add: record_call_def set_isRun_def)
  have h: "fst (failing_handler [stored 1 10, stored 2 20] (server four_events_world)) =
      Some (HandlerError ''boom'')"
    by (simp add: failing_handler_def)
  have q: "collection_find 50 2 (set_isRun True unreachable_world) =
        (Inl QueryError, record_call (FindCall 50 2) (set_isRun True unreachable_world)) \<or>
      (\<exists>events. collection_find 50 2 (set_isRun True unreachable_world) =
          (Inr events, record_call (FindCall 50 2) (set_isRun True unreachable_world)) \<and>
        events \<noteq> [] \<and>
        fst (noop_handler events
              (server (record_call (FindCall 50 2) (set_isRun True unreachable_world)))) =
          Some QueryError)"
    using unreachable_find by blast
  have e: "collection_find 50 2 (set_isRun True four_events_world) =
        (Inl (HandlerError ''boom''),
         record_call (FindCall 50 2) (set_isRun True four_events_world)) \<or>
      (\<exists>events. collection_find 50 2 (set_isRun True four_events_world) =
          (Inr events, record_call (FindCall 50 2) (set_isRun True four_events_world)) \<and>
        events \<noteq> [] \<and>
        fst (failing_handler events
              (server (record_call (FindCall 50 2) (set_isRun True four_events_world)))) =
          Some (HandlerError ''boom''))"
    using four_events_find_in_flight h s by auto
  note t1 = poll_cycle_error_caught_and_guard_cleared
    [where w = unreachable_world and cb = noop_handler and err = QueryError, OF i1 q]
  note t2 = poll_cycle_error_caught_and_guard_cleared
    [where w = four_events_world and cb = failing_handler and err = "HandlerError ''boom''",
     OF i2 e]
  from t1 t2 i1 i2 h show ?thesis
    by (simp add: c1 c2 unreachable_find four_events_find_in_flight)
qed


section \<open>Enqueueing\<close>

text \<open>
  C2. A payload string of 24 hexadecimal digits should reach the store as a native
  reference, and a non-string value should be stored unchanged. The loop in \<^verbatim>\<open>send\<close> skips
  every string and tests the other values: the payload
  \<^verbatim>\<open>{ ref: "507f1f77bcf86cd799439011", note: "hi" }\<close> is stored with \<^verbatim>\<open>ref\<close> still a
  string, and the payload \<^verbatim>\<open>{ n: 5 }\<close> ends the call with a TypeError and nothing inserted,
  whatever the ObjectId constructor is.
\<close>

theorem send_keeps_hex_string_and_rejects_number:
  "matches_hex24 ''507f1f77bcf86cd799439011'' \<and>
   fst (send newObjectId
          [(''ref'', JString ''507f1f77bcf86cd799439011''), (''note'', JString ''hi'')]
          None 100 connected_world) = Inr () \<and>
   map doc_value (docs (server (snd (send newObjectId
       [(''ref'', JString ''507f1f77bcf86cd799439011''), (''note'', JString ''hi'')]
       None 100 connected_world)))) =
     [[(''ref'', JString ''507f1f77bcf86cd799439011''), (''note'', JString ''hi'')]] \<and>
   send newObjectId [(''n'', JNumber 5)] None 100 connected_world =
     (Inl TypeError, connected_world)"
  by (simp add: connected_world_eq send_def ensure_connected_def normalize_value_def
      collection_insert_def record_call_def matches_hex24_def hex_chars_def)

text \<open>
  C7, as stated, has every call insert a record. A call on a new instance whose store
  cannot be reached ends with the connection error, and a call with the payload
  \<^verbatim>\<open>{ n: 5 }\<close> ends with a TypeError; neither inserts anything.
\<close>

theorem send_raising_inserts_nothing:
  "fst (send (driver_ObjectId 1000) [(''note'', JString ''hi'')] None 100 offline_world) =
     Inl ConnectionError \<and>
   docs (server (snd (send (driver_ObjectId 1000) [(''note'', JString ''hi'')] None 100
       offline_world))) =
     docs (server offline_world) \<and>
   fst (send (driver_ObjectId 1000) [(''n'', JNumber 5)] None 100 connected_world) =
     Inl TypeError \<and>
   docs (server (snd (send (driver_ObjectId 1000) [(''n'', JNumber 5)] None 100
       connected_world))) =
     docs (server connected_world)"
  by (simp add: offline_world_def initial_world_def new_GrattisEvent_def connected_world_eq
      send_def ensure_connected_def connect_def normalize_value_def record_call_def)

text \<open>
  C7, amended. A call to \<^verbatim>\<open>send\<close> that returns without raising has appended exactly one
  record to the collection: its flags are both false, its \<^verbatim>\<open>date\<close> is the supplied one, or
  the time of the call when none was supplied, its value is the payload as the loop left
  it, and its identifier is the one the store hands out.
\<close>

theorem send_inserts_one_record:
  assumes "send newObjectId val date_arg now w = (Inr u, w')"
  shows "\<exists>val'. normalize_keys newObjectId val = Inr val' \<and>
           docs (server w') = docs (server w) @
             [\<lparr> doc_value = val',
                date = (case date_arg of None \<Rightarrow> now | Some t \<Rightarrow> t),
                isWork = False, isDone = False,
                doc_id = next_id (server w) \<rparr>]"
proof -
  let ?d = "case date_arg of None \<Rightarrow> now | Some t \<Rightarrow> t"
  obtain r w1 where c: "ensure_connected w = (r, w1)"
    by (cases "ensure_connected w")
  show ?thesis
  proof (cases r)
    case (Inl err)
    with assms c show ?thesis by (simp add: send_def)
  next
    case (Inr u1)
    show ?thesis
    proof (cases "normalize_keys newObjectId val")
      case (Inl err)
      with assms c \<open>r = Inr u1\<close> show ?thesis by (simp add: send_def)
    next
      case n: (Inr val')
      with assms c \<open>r = Inr u1\<close>
      have i: "collection_insert
                 \<lparr> doc_value = val', date = ?d, isWork = False, isDone = False \<rparr> w1 = (Inr u, w')"
        by (simp add: send_def)
      from c have "server w1 = server w" by (rule ensure_connected_server)
      with collection_insert_Inr [OF i] n show ?thesis by simp
    qed
  qed
qed

lemma send_note_default_date:
  "send (driver_ObjectId 1000) [(''note'', JString ''hi'')] None 100 four_events_world =
     (Inr (),
      (record_call
         (InsertCall \<lparr> doc_value = [(''note'', JString ''hi'')], date = 100,
                       isWork = False, isDone = False \<rparr>) four_events_world)
        \<lparr>server := \<lparr> available = True,
           docs = [stored 0 30, stored 1 10, stored 2 20, stored 3 90,
                   \<lparr> doc_value = [(''note'', JString ''hi'')], date = 100, isWork = False,
                     isDone = False, doc_id = 4 \<rparr>],
           next_id = 5 \<rparr>\<rparr>)"
  by (simp add: four_events_world_def connected_world_eq send_def ensure_connected_def
      normalize_value_def collection_insert_def record_call_def)

lemma send_note_given_date:
  "fst (send (driver_ObjectId 1000) [(''note'', JString ''hi'')] (Some 500) 100
       four_events_world) = Inr ()"
  by (simp add: four_events_world_def connected_world_eq send_def ensure_connected_def
      normalize_value_def collection_insert_def record_call_def)

text \<open>
  Two calls at time 100 on a collection of four events: without a date the new record is
  scheduled at 100, with the date 500 it is scheduled at 500.
\<close>

theorem send_inserts_one_record_witness:
  "fst (send (driver_ObjectId 1000) [(''note'', JString ''hi'')] None 100
       four_events_world) = Inr () \<and>
   docs (server (snd (send (driver_ObjectId 1000) [(''note'', JString ''hi'')] None 100
       four_events_world))) =
     docs (server four_events_world) @
       [\<lparr> doc_value = [(''note'', JString ''hi'')], date = 100, isWork = False,
          isDone = False, doc_id = 4 \<rparr>] \<and>
   fst (send (driver_ObjectId 1000) [(''note'', JString ''hi'')] (Some 500) 100
       four_events_world) =
     Inr () \<and>
   docs (server (snd (send (driver_ObjectId 1000) [(''note'', JString ''hi'')] (Some 500) 100
       four_events_world))) =
     docs (server four_events_world) @
       [\<lparr> doc_value = [(''note'', JString ''hi'')], date = 500, isWork = False,
          isDone = False, doc_id = 4 \<rparr>]"
proof -
  let ?p = "[(''note'', JString ''hi'')]"
  have n: "normalize_keys (driver_ObjectId 1000) ?p = Inr ?p"
    by (simp add: normalize_value_def)
  have i: "next_id (server four_events_world) = 4"
    by (simp add: four_events_world_def)
  have a: "send (driver_ObjectId 1000) ?p None 100 four_events_world =
      (Inr (), snd (send (driver_ObjectId 1000) ?p None 100 four_events_world))"
    by (simp add: send_note_default_date)
  have b: "send (driver_ObjectId 1000) ?p (Some 500) 100 four_events_world =
      (Inr (), snd (send (driver_ObjectId 1000) ?p (Some 500) 100 four_events_world))"
    using send_note_given_date by (simp add: prod_eq_iff)
  from send_inserts_one_record [OF a] n i
  have 1: "docs (server (snd (send (driver_ObjectId 1000) ?p None 100 four_events_world))) =
      docs (server four_events_world) @
        [\<lparr> doc_value = ?p, date = 100, isWork = False, isDone = False, doc_id = 4 \<rparr>]"
    by simp
  from send_inserts_one_record [OF b] n i
  have 2: "docs (server (snd (send (driver_ObjectId 1000) ?p (Some 500) 100 four_events_world))) =
      docs (server four_events_world) @
        [\<lparr> doc_value = ?p, date = 500, isWork = False, isDone = False, doc_id = 4 \<rparr>]"
    by simp
  have fa: "fst (send (driver_ObjectId 1000) ?p None 100 four_events_world) = Inr ()"
    by (simp add: send_note_default_date)
  from 1 2 fa send_note_given_date show ?thesis by blast
qed

section \<open>Deleting\<close>

text \<open>
  C8, as stated, has \<^verbatim>\<open>removeEvent\<close> never raise for an id that was never inserted. On a
  new instance the call raises a TypeError for a well-formed id, and on a connected
  instance the id \<^verbatim>\<open>"xyz"\<close> makes the constructor raise; no delete is sent in either case.
\<close>

theorem removeEvent_raises_without_handle_or_on_rejected_id:
  "driver_ObjectId 1000 (JString ''000000000000000000000009'') = Inr 9 \<and>
   removeEvent (driver_ObjectId 1000) (JString ''000000000000000000000009'')
       (initial_world ''mongodb://localhost'') =
     (Inl TypeError, initial_world ''mongodb://localhost'') \<and>
   removeEvent (driver_ObjectId 1000) (JString ''xyz'') four_events_world =
     (Inl BSONError, four_events_world)"
  by (simp add: removeEvent_def initial_world_def new_GrattisEvent_def four_events_world_def
      connected_world_eq objectid_of_string_def matches_hex24_def hex_chars_def hex_digit_def)

text \<open>
  C8, amended. On an instance with a collection handle and a reachable store, for an id
  the ObjectId constructor accepts: \<^verbatim>\<open>removeEvent\<close> raises no error, and neither does a
  second call with the same id; if no stored event has that id the collection is left as it
  was; and when stored ids are distinct the second call leaves the collection as the first
  call left it.
\<close>

theorem removeEvent_absent_id_no_error:
  assumes "collection (this w) \<noteq> None" and "available (server w)"
    and "newObjectId eventId = Inr i"
  shows "fst (removeEvent newObjectId eventId w) = Inr () \<and>
         fst (removeEvent newObjectId eventId (snd (removeEvent newObjectId eventId w))) = Inr () \<and>
         (i \<notin> doc_id ` set (docs (server w)) \<longrightarrow>
            docs (server (snd (removeEvent newObjectId eventId w))) = docs (server w)) \<and>
         (distinct (map doc_id (docs (server w))) \<longrightarrow>
            docs (server (snd (removeEvent newObjectId eventId
                    (snd (removeEvent newObjectId eventId w))))) =
            docs (server (snd (removeEvent newObjectId eventId w))))"
proof -
  let ?w1 = "snd (removeEvent newObjectId eventId w)"
  have r1: "removeEvent newObjectId eventId w =
       (Inr (), (record_call (DeleteOneCall i) w)
                  \<lparr>server := (server w)\<lparr>docs := delete_first i (docs (server w))\<rparr>\<rparr>)"
    using assms by (rule removeEvent_connected)
  have c1: "collection (this ?w1) \<noteq> None" and a1: "available (server ?w1)"
    and d1: "docs (server ?w1) = delete_first i (docs (server w))"
    using assms by (simp_all add: r1 record_call_def)
  have r2: "removeEvent newObjectId eventId ?w1 =
       (Inr (), (record_call (DeleteOneCall i) ?w1)
                  \<lparr>server := (server ?w1)\<lparr>docs := delete_first i (docs (server ?w1))\<rparr>\<rparr>)"
    using c1 a1 assms(3) by (rule removeEvent_connected)
  have "fst (removeEvent newObjectId eventId w) = Inr ()" by (simp add: r1)
  moreover have "fst (removeEvent newObjectId eventId ?w1) = Inr ()" by (simp add: r2)
  moreover have "i \<notin> doc_id ` set (docs (server w)) \<longrightarrow> docs (server ?w1) = docs (server w)"
    by (simp add: d1 delete_first_absent)
  moreover have "distinct (map doc_id (docs (server w))) \<longrightarrow>
      docs (server (snd (removeEvent newObjectId eventId ?w1))) = docs (server ?w1)"
    using delete_first_removes [of "docs (server w)" i]
    by (simp add: r2 d1 delete_first_absent)
  ultimately show ?thesis by blast
qed

lemma four_events_handle:
  "collection (this four_events_world) \<noteq> None \<and> available (server four_events_world) \<and>
   docs (server four_events_world) = [stored 0 30, stored 1 10, stored 2 20, stored 3 90]"
  by (simp add: four_events_world_def connected_world_eq)

lemma accepts_id_2: "driver_ObjectId 1000 (JString ''000000000000000000000002'') = Inr 2"
  by (simp add: objectid_of_string_def matches_hex24_def hex_chars_def hex_digit_def)

lemma accepts_id_9: "driver_ObjectId 1000 (JString ''000000000000000000000009'') = Inr 9"
  by (simp add: objectid_of_string_def matches_hex24_def hex_chars_def hex_digit_def)

text \<open>
  On the collection of four events: deleting the stored id 2 twice, and deleting the id 9,
  which was never inserted.
\<close>

theorem removeEvent_absent_id_no_error_witness:
  "collection (this four_events_world) \<noteq> None \<and> available (server four_events_world) \<and>
   driver_ObjectId 1000 (JString ''000000000000000000000002'') = Inr 2 \<and>
   driver_ObjectId 1000 (JString ''000000000000000000000009'') = Inr 9 \<and>
   distinct (map doc_id (docs (server four_events_world))) \<and>
   9 \<notin> doc_id ` set (docs (server four_events_world)) \<and>
   fst (removeEvent (driver_ObjectId 1000) (JString ''000000000000000000000002'')
         four_events_world) =
     Inr () \<and>
   fst (removeEvent (driver_ObjectId 1000) (JString ''000000000000000000000002'')
         (snd (removeEvent (driver_ObjectId 1000) (JString ''000000000000000000000002'')
                 four_events_world))) = Inr () \<and>
   docs (server (snd (removeEvent (driver_ObjectId 1000) (JString ''000000000000000000000002'')
         (snd (removeEvent (driver_ObjectId 1000) (JString ''000000000000000000000002'')
                 four_events_world))))) =
     docs (server (snd (removeEvent (driver_ObjectId 1000) (JString ''000000000000000000000002'')
                 four_events_world))) \<and>
   fst (removeEvent (driver_ObjectId 1000) (JString ''000000000000000000000009'')
         four_events_world) =
     Inr () \<and>
   docs (server (snd (removeEvent (driver_ObjectId 1000) (JString ''000000000000000000000009'')
         four_events_world))) = docs (server four_events_world)"
proof -
  have c: "collection (this four_events_world) \<noteq> None"
    and a: "available (server four_events_world)"
    using four_events_handle by simp_all
  have d: "distinct (map doc_id (docs (server four_events_world)))"
    by (simp add: four_events_handle stored_def)
  have n: "9 \<notin> doc_id ` set (docs (server four_events_world))"
    by (simp add: four_events_handle stored_def)
  note t2 = removeEvent_absent_id_no_error
    [where newObjectId = "driver_ObjectId 1000"
       and eventId = "JString ''000000000000000000000002''",
     OF c a accepts_id_2]
  note t9 = removeEvent_absent_id_no_error
    [where newObjectId = "driver_ObjectId 1000"
       and eventId = "JString ''000000000000000000000009''",
     OF c a accepts_id_9]
  from t2 t9 c a d n accepts_id_2 accepts_id_9 show ?thesis by blast
qed

text \<open>
  C9. \<^verbatim>\<open>removeEvent\<close> does not connect. Called while the collection handle is still
  \<^verbatim>\<open>null\<close> it raises a TypeError and leaves everything as it was: no connection is
  attempted and no delete is sent. From the same state \<^verbatim>\<open>send\<close> and \<^verbatim>\<open>getItems\<close> both
  start by connecting.
\<close>

theorem removeEvent_does_not_connect:
  "collection (this w) = None \<Longrightarrow>
     removeEvent newObjectId eventId w = (Inl TypeError, w) \<and>
     take (Suc (length (calls w))) (calls (snd (send newObjectId val date_arg now w))) =
       calls w @ [ConnectCall (mongoURL (this w))] \<and>
     take (Suc (length (calls w))) (calls (snd (getItems timeout_arg limit_arg w))) =
       calls w @ [ConnectCall (mongoURL (this w))]"
  by (auto simp: removeEvent_def send_def getItems_def ensure_connected_def connect_def
      record_call_def collection_insert_def Let_def split: sum.splits option.splits prod.splits)

theorem removeEvent_does_not_connect_witness:
  "collection (this (initial_world ''mongodb://localhost'')) = None \<and>
   removeEvent (driver_ObjectId 1000) (JString ''000000000000000000000002'')
       (initial_world ''mongodb://localhost'') =
     (Inl TypeError, initial_world ''mongodb://localhost'') \<and>
   calls (snd (send (driver_ObjectId 1000) [(''note'', JString ''hi'')] None 100
       (initial_world ''mongodb://localhost''))) =
     [ConnectCall ''mongodb://localhost'',
      InsertCall \<lparr> doc_value = [(''note'', JString ''hi'')], date = 100, isWork = False,
                   isDone = False \<rparr>] \<and>
   calls (snd (getItems None None (initial_world ''mongodb://localhost''))) =
     [ConnectCall ''mongodb://localhost'']"
proof -
  have h: "collection (this (initial_world ''mongodb://localhost'')) = None"
    by (simp add: initial_world_def new_GrattisEvent_def)
  have s: "calls (snd (send (driver_ObjectId 1000) [(''note'', JString ''hi'')] None 100
       (initial_world ''mongodb://localhost''))) =
     [ConnectCall ''mongodb://localhost'',
      InsertCall \<lparr> doc_value = [(''note'', JString ''hi'')], date = 100, isWork = False,
                   isDone = False \<rparr>]"
    by (simp add: initial_world_def new_GrattisEvent_def send_def ensure_connected_def
        connect_def normalize_value_def collection_insert_def record_call_def)
  have g: "calls (snd (getItems None None (initial_world ''mongodb://localhost''))) =
     [ConnectCall ''mongodb://localhost'']"
    using connected_world_eq by (simp add: connected_world_def)
  from removeEvent_does_not_connect
         [OF h, of "driver_ObjectId 1000" "JString ''000000000000000000000002''"] h s g
  show ?thesis by blast
qed

text \<open>
  C10, as stated, has every id string that is not 24 hexadecimal digits raise. The string
  \<^verbatim>\<open>"abcdefghijkl"\<close> is not of that form, yet the constructor takes its 12 characters as the 12
  bytes of an identifier: on the collection of four events the call sends its delete,
  raises nothing and leaves the collection as it was.
\<close>

theorem removeEvent_accepts_twelve_character_id:
  "\<not> matches_hex24 ''abcdefghijkl'' \<and>
   driver_ObjectId 1000 (JString ''abcdefghijkl'') = Inr 30138990049255557934854335340 \<and>
   fst (removeEvent (driver_ObjectId 1000) (JString ''abcdefghijkl'') four_events_world) =
     Inr () \<and>
   calls (snd (removeEvent (driver_ObjectId 1000) (JString ''abcdefghijkl'')
       four_events_world)) =
     calls four_events_world @ [DeleteOneCall 30138990049255557934854335340] \<and>
   docs (server (snd (removeEvent (driver_ObjectId 1000) (JString ''abcdefghijkl'')
       four_events_world))) = docs (server four_events_world)"
  by (simp add: removeEvent_def collection_deleteOne_def record_call_def four_events_world_def
      connected_world_eq stored_def objectid_of_string_def matches_hex24_def is_ascii_def)

text \<open>
  C10, amended. \<^verbatim>\<open>removeEvent\<close> builds the ObjectId before it sends the delete: when the
  constructor accepts the id, the one call sent is the delete of the constructed
  identifier; when the constructor rejects the id, whatever the constructor is, the call
  raises and leaves everything as it was, so no delete is sent. With the driver's
  constructor that is the case for every id string that is neither 24 hexadecimal digits
  nor 12 characters long.
\<close>

theorem removeEvent_unaccepted_id_raises:
  "(\<forall>i. collection (this w) \<noteq> None \<and> newObjectId eventId = Inr i \<longrightarrow>
        calls (snd (removeEvent newObjectId eventId w)) = calls w @ [DeleteOneCall i]) \<and>
   (\<forall>err. newObjectId eventId = Inl err \<longrightarrow>
        (\<exists>err'. removeEvent newObjectId eventId w = (Inl err', w))) \<and>
   (\<forall>s. \<not> matches_hex24 s \<and> length s \<noteq> 12 \<longrightarrow>
        (\<exists>err. removeEvent (driver_ObjectId g) (JString s) w = (Inl err, w)))"
proof (intro conjI allI impI)
  fix i
  assume "collection (this w) \<noteq> None \<and> newObjectId eventId = Inr i"
  then show "calls (snd (removeEvent newObjectId eventId w)) = calls w @ [DeleteOneCall i]"
    by (auto simp: removeEvent_def collection_deleteOne_def record_call_def Let_def
        split: option.splits)
next
  fix err
  assume "newObjectId eventId = Inl err"
  then show "\<exists>err'. removeEvent newObjectId eventId w = (Inl err', w)"
    by (simp add: removeEvent_def split: option.splits)
next
  fix s
  assume "\<not> matches_hex24 s \<and> length s \<noteq> 12"
  then have "driver_ObjectId g (JString s) = Inl BSONError"
    by (simp add: objectid_of_string_def)
  then show "\<exists>err. removeEvent (driver_ObjectId g) (JString s) w = (Inl err, w)"
    by (simp add: removeEvent_def split: option.splits)
qed

text \<open>
  The ids \<^verbatim>\<open>"xyz"\<close> and \<^verbatim>\<open>"507f1f77bcf86cd79943901"\<close> (23 digits) on the collection of
  four events, and the accepted id 2.
\<close>

theorem removeEvent_unaccepted_id_raises_witness:
  "\<not> matches_hex24 ''xyz'' \<and> length ''xyz'' \<noteq> 12 \<and>
   \<not> matches_hex24 ''507f1f77bcf86cd79943901'' \<and> length ''507f1f77bcf86cd79943901'' \<noteq> 12 \<and>
   driver_ObjectId 1000 (JString ''xyz'') = Inl BSONError \<and>
   removeEvent (driver_ObjectId 1000) (JString ''xyz'') four_events_world =
     (Inl BSONError, four_events_world) \<and>
   removeEvent (driver_ObjectId 1000) (JString ''507f1f77bcf86cd79943901'') four_events_world =
     (Inl BSONError, four_events_world) \<and>
   collection (this four_events_world) \<noteq> None \<and>
   driver_ObjectId 1000 (JString ''000000000000000000000002'') = Inr 2 \<and>
   calls (snd (removeEvent (driver_ObjectId 1000) (JString ''000000000000000000000002'')
       four_events_world)) = calls four_events_world @ [DeleteOneCall 2]"
proof -
  have x: "\<not> matches_hex24 ''xyz'' \<and> length ''xyz'' \<noteq> 12"
    and y: "\<not> matches_hex24 ''507f1f77bcf86cd79943901'' \<and>
            length ''507f1f77bcf86cd79943901'' \<noteq> 12"
    by (simp_all add: matches_hex24_def)
  have r: "driver_ObjectId 1000 (JString ''xyz'') = Inl BSONError"
    using x by (simp add: objectid_of_string_def)
  have c: "collection (this four_events_world) \<noteq> None"
    using four_events_handle by simp
  note t = removeEvent_unaccepted_id_raises
    [of four_events_world "driver_ObjectId 1000" "JString ''000000000000000000000002''" 1000]
  from t x obtain e1 where 1: "removeEvent (driver_ObjectId 1000) (JString ''xyz'')
      four_events_world = (Inl e1, four_events_world)"
    by blast
  from t y obtain e2 where 2: "removeEvent (driver_ObjectId 1000)
      (JString ''507f1f77bcf86cd79943901'') four_events_world = (Inl e2, four_events_world)"
    by blast
  have e1: "e1 = BSONError"
    using 1 x c by (auto simp: removeEvent_def objectid_of_string_def split: option.splits)
  have e2: "e2 = BSONError"
    using 2 y c by (auto simp: removeEvent_def objectid_of_string_def split: option.splits)
  from t c accepts_id_2
  have 3: "calls (snd (removeEvent (driver_ObjectId 1000) (JString ''000000000000000000000002'')
       four_events_world)) = calls four_events_world @ [DeleteOneCall 2]"
    by blast
  from 1 2 3 e1 e2 x y r c accepts_id_2 show ?thesis by simp
qed

end
